theory Spec2Isabelle
  imports Complex_Main
begin

section \<open>Geometry helpers of mil\_ros\_tools: a shallow embedding\<close>

text \<open>
  The source is \<^verbatim>\<open>utils/mil_tools/mil_ros_tools/geometry_helpers.py\<close>: a handful of numpy
  one-liners on 3-vectors, quaternions \<open>[x, y, z, w]\<close> and small matrices.

  Numbers. A numpy \<open>float64\<close> is modelled by a real number: arithmetic is exact, there is
  no rounding and no overflow. Three things numpy does with floats are kept:
  \<^item> division by zero does not raise (numpy's default error state only warns); the
    quotient is \<open>nan\<close> or an infinity. The quotient of two arrays is therefore a list of
    \<open>npfloat\<close>, and a caller that goes on computing needs every entry finite;
  \<^item> \<^verbatim>\<open>dtype=np.float32\<close> rounds every entry to a 24-bit significand
    (\<open>to_float32\<close>; the exponent range of binary32 is not modelled);
  \<^item> the exponent range of \<open>float64\<close> in \<^verbatim>\<open>np.linalg.norm\<close>, which squares its
    argument: \<open>make_rotation_float64\<close> is \<open>make_rotation\<close> with the norm that overflows
    and underflows. The two agree when the squares stay in range
    (\<open>make_rotation_float64_in_range\<close>).

  Arrays. A one-dimensional array is a list, a matrix a list of rows. Shape errors and
  out-of-range indices are results of the model, not unspecified values.
\<close>

subsection \<open>Floats\<close>

type_synonym vec = "real list"
type_synonym mat = "real list list"

datatype npfloat = Fin real | PInf | NInf | NaN

datatype error = IndexError | AssertionError | ValueError

text \<open>
  What a call does: it returns a (finite) value, raises, or returns an array that holds
  \<open>nan\<close> or \<open>inf\<close> entries, which the real-valued model does not follow any further.
\<close>

datatype 'a result = Returns 'a | Raises error | ReturnsNonFinite

definition result_bind :: "'a result \<Rightarrow> ('a \<Rightarrow> 'b result) \<Rightarrow> 'b result" where
  "result_bind r f =
     (case r of Returns x \<Rightarrow> f x | Raises e \<Rightarrow> Raises e | ReturnsNonFinite \<Rightarrow> ReturnsNonFinite)"

text \<open>\<^verbatim>\<open>x / d\<close> on numpy floats, \<open>d\<close> a norm (so never a negative zero).\<close>

definition np_true_divide :: "real \<Rightarrow> real \<Rightarrow> npfloat" where
  "np_true_divide x d =
     (if d \<noteq> 0 then Fin (x / d)
      else if x = 0 then NaN
      else if 0 < x then PInf else NInf)"

fun is_finite :: "npfloat \<Rightarrow> bool" where
  "is_finite (Fin x) = True"
| "is_finite PInf = False"
| "is_finite NInf = False"
| "is_finite NaN = False"

fun finite_values :: "npfloat list \<Rightarrow> vec option" where
  "finite_values [] = Some []"
| "finite_values (Fin x # fs) = map_option ((#) x) (finite_values fs)"
| "finite_values (f # fs) = None"

text \<open>
  \<^verbatim>\<open>np.isclose(a, b, atol=atol)\<close> with the default \<^verbatim>\<open>rtol=1e-05\<close>:
  \<^verbatim>\<open>absolute(a - b) <= (atol + rtol * absolute(b))\<close>.
\<close>

definition isclose :: "real \<Rightarrow> real \<Rightarrow> real \<Rightarrow> bool" where
  "isclose a b atol \<longleftrightarrow> \<bar>a - b\<bar> \<le> atol + (1 / 10 ^ 5) * \<bar>b\<bar>"

text \<open>
  Rounding to \<open>float32\<close>: sign and magnitude, the magnitude rounded to the nearest multiple
  of its unit in the last place (24 significant bits), ties to the even multiple.
\<close>

definition round_half_even :: "real \<Rightarrow> int" where
  "round_half_even r =
     (let f = \<lfloor>r\<rfloor> in
      if r - of_int f < 1 / 2 then f
      else if 1 / 2 < r - of_int f then f + 1
      else if even f then f else f + 1)"

definition float32_ulp :: "real \<Rightarrow> real" where
  "float32_ulp x = 2 powr (of_int \<lfloor>log 2 \<bar>x\<bar>\<rfloor> - 23)"

definition to_float32 :: "real \<Rightarrow> real" where
  "to_float32 x =
     (if x = 0 then 0
      else sgn x * (of_int (round_half_even (\<bar>x\<bar> / float32_ulp x)) * float32_ulp x))"

subsection \<open>The numpy operations the source calls\<close>

text \<open>\<^verbatim>\<open>np.linalg.norm\<close> of a one-dimensional array.\<close>

definition linalg_norm :: "vec \<Rightarrow> real" where
  "linalg_norm v = sqrt (\<Sum>x\<leftarrow>v. x\<^sup>2)"

text \<open>\<^verbatim>\<open>np.dot\<close> of two one-dimensional arrays: the lengths must agree.\<close>

definition dot :: "vec \<Rightarrow> vec \<Rightarrow> real result" where
  "dot u w =
     (if length u = length w then Returns (\<Sum>(x, y)\<leftarrow>zip u w. x * y) else Raises ValueError)"

text \<open>
  \<^verbatim>\<open>np.cross\<close> of two 3-vectors. (numpy also takes 2-vectors; \<open>make_rotation\<close> then
  fails a step later, so the model rejects them here.)
\<close>

definition cross :: "vec \<Rightarrow> vec \<Rightarrow> vec result" where
  "cross u w =
     (if length u = 3 \<and> length w = 3
      then Returns [u ! 1 * w ! 2 - u ! 2 * w ! 1,
                    u ! 2 * w ! 0 - u ! 0 * w ! 2,
                    u ! 0 * w ! 1 - u ! 1 * w ! 0]
      else Raises ValueError)"

definition eye3 :: mat where
  "eye3 = [[1, 0, 0], [0, 1, 0], [0, 0, 1]]"

definition mat_add :: "mat \<Rightarrow> mat \<Rightarrow> mat" where
  "mat_add A B = map2 (map2 (+)) A B"

definition mat_scale :: "mat \<Rightarrow> real \<Rightarrow> mat" where
  "mat_scale A k = map (map (\<lambda>x. x * k)) A"

definition column :: "mat \<Rightarrow> nat \<Rightarrow> vec" where
  "column A j = map (\<lambda>row. row ! j) A"

text \<open>The product of two 3x3 matrices; \<^verbatim>\<open>np.linalg.matrix_power(A, 2)\<close> is \<open>A\<close> times \<open>A\<close>.\<close>

definition matmul3 :: "mat \<Rightarrow> mat \<Rightarrow> mat" where
  "matmul3 A B = map (\<lambda>row. map (\<lambda>j. \<Sum>(x, y)\<leftarrow>zip row (column B j). x * y) [0, 1, 2]) A"

definition matrix_power2 :: "mat \<Rightarrow> mat" where
  "matrix_power2 A = matmul3 A A"

text \<open>\<^verbatim>\<open>np.linalg.det\<close> of a 3x3 matrix, by expansion along the first row.\<close>

definition det3 :: "mat \<Rightarrow> real" where
  "det3 A =
     A ! 0 ! 0 * (A ! 1 ! 1 * A ! 2 ! 2 - A ! 1 ! 2 * A ! 2 ! 1)
     - A ! 0 ! 1 * (A ! 1 ! 0 * A ! 2 ! 2 - A ! 1 ! 2 * A ! 2 ! 0)
     + A ! 0 ! 2 * (A ! 1 ! 0 * A ! 2 ! 1 - A ! 1 ! 1 * A ! 2 ! 0)"

text \<open>An entry \<^verbatim>\<open>A[i, j]\<close>, with numpy's bounds check.\<close>

definition entry :: "mat \<Rightarrow> nat \<Rightarrow> nat \<Rightarrow> real result" where
  "entry A i j =
     (if i < length A \<and> j < length (A ! i) then Returns (A ! i ! j) else Raises IndexError)"

subsection \<open>VectorOps\<close>

text \<open>
  \<^verbatim>\<open>def normalize(vector): return vector / np.linalg.norm(vector)\<close>
  The name \<open>normalize\<close> belongs to a constant of the HOL library.
\<close>

definition normalize_np :: "vec \<Rightarrow> npfloat list" where
  "normalize_np vector = map (\<lambda>x. np_true_divide x (linalg_norm vector)) vector"

text \<open>
  \<^verbatim>\<open>
  def clip_norm(vector, lower_bound, upper_bound):
      norm = np.linalg.norm(vector)
      if lower_bound < norm < upper_bound:
          return np.copy(vector)
      if norm < lower_bound:
          v_new = (vector * lower_bound) / norm
      else:
          v_new = (vector * upper_bound) / norm
      return v_new
  \<close>
\<close>

definition clip_norm :: "vec \<Rightarrow> real \<Rightarrow> real \<Rightarrow> npfloat list" where
  "clip_norm vector lower_bound upper_bound =
     (let norm = linalg_norm vector in
      if lower_bound < norm \<and> norm < upper_bound then map Fin vector
      else if norm < lower_bound
        then map (\<lambda>x. np_true_divide (x * lower_bound) norm) vector
        else map (\<lambda>x. np_true_divide (x * upper_bound) norm) vector)"

text \<open>
  \<^verbatim>\<open>
  def skew_symmetric_cross(a):
      assert len(a) == 3, "a must be in R3"
      skew_symm = np.array([
          [+0.00, -a[2], +a[1]],
          [+a[2], +0.00, -a[0]],
          [-a[1], +a[0], +0.00],
      ], dtype=np.float32)
      return skew_symm
  \<close>
\<close>

definition skew_symmetric_cross :: "vec \<Rightarrow> mat result" where
  "skew_symmetric_cross a =
     (if length a \<noteq> 3 then Raises AssertionError
      else Returns (map (map to_float32)
             [[0, - (a ! 2), a ! 1],
              [a ! 2, 0, - (a ! 0)],
              [- (a ! 1), a ! 0, 0]]))"

text \<open>
  \<^verbatim>\<open>def deskew(A): return np.array([A[2, 1], A[0, 2], A[1, 0]], dtype=np.float32)\<close>
\<close>

definition deskew :: "mat \<Rightarrow> vec result" where
  "deskew A =
     result_bind (entry A 2 1) (\<lambda>x.
     result_bind (entry A 0 2) (\<lambda>y.
     result_bind (entry A 1 0) (\<lambda>z.
       Returns (map to_float32 [x, y, z]))))"

subsection \<open>AlignmentSolver\<close>

text \<open>
  \<^verbatim>\<open>
  def make_rotation(vector_a, vector_b):
      unit_a = normalize(vector_a)
      unit_b = normalize(vector_b)
      v = np.cross(unit_a, unit_b)
      s = np.linalg.norm(v)
      c = np.dot(unit_a, unit_b)
      skew_cross = skew_symmetric_cross(v)
      skew_squared = np.linalg.matrix_power(skew_cross, 2)
      if np.isclose(c, 1.0, atol=1e-4):
          R = np.eye(3)
          return R
      elif np.isclose(c, -1.0, atol=1e-4):
          R = np.eye(3)
          R[2, 2] *= -1
          return R
      normalization = (1 - c) / (s ** 2)
      R = np.eye(3) + skew_cross + (skew_squared * normalization)
      # Address the reflection case
      if np.linalg.det(R) < 0:
          R[:, 3] *= -1
      return R
  \<close>
  The matrix of the generic branch is \<open>rodrigues\<close>. \<^verbatim>\<open>R[:, 3]\<close> on a 3x3 array raises
  \<open>IndexError\<close> (index 3 is out of bounds for axis 1 with size 3). When a normalised
  input or the quotient \<^verbatim>\<open>(1 - c) / (s ** 2)\<close> is not finite, every entry of \<open>R\<close> is
  \<open>nan\<close>, no comparison holds, and the \<open>nan\<close> matrix is returned.
\<close>

definition rodrigues :: "mat \<Rightarrow> mat \<Rightarrow> real \<Rightarrow> mat" where
  "rodrigues skew_cross skew_squared normalization =
     mat_add (mat_add eye3 skew_cross) (mat_scale skew_squared normalization)"

text \<open>The body of \<open>make_rotation\<close> from \<^verbatim>\<open>v = np.cross(unit_a, unit_b)\<close> on, for finite units.\<close>

definition make_rotation_from_units :: "vec \<Rightarrow> vec \<Rightarrow> mat result" where
  "make_rotation_from_units unit_a unit_b =
     result_bind (cross unit_a unit_b) (\<lambda>v.
     let s = linalg_norm v in
     result_bind (dot unit_a unit_b) (\<lambda>c.
     result_bind (skew_symmetric_cross v) (\<lambda>skew_cross.
     let skew_squared = matrix_power2 skew_cross in
     if isclose c 1 (1 / 10 ^ 4) then Returns eye3
     else if isclose c (- 1) (1 / 10 ^ 4)
       then Returns (eye3[2 := (eye3 ! 2)[2 := eye3 ! 2 ! 2 * (- 1)]])
     else
       (case np_true_divide (1 - c) (s\<^sup>2) of
          Fin normalization \<Rightarrow>
            let R = rodrigues skew_cross skew_squared normalization in
            if det3 R < 0 then Raises IndexError else Returns R
        | _ \<Rightarrow> ReturnsNonFinite))))"

definition make_rotation :: "vec \<Rightarrow> vec \<Rightarrow> mat result" where
  "make_rotation vector_a vector_b =
     (case (finite_values (normalize_np vector_a), finite_values (normalize_np vector_b)) of
        (Some unit_a, Some unit_b) \<Rightarrow> make_rotation_from_units unit_a unit_b
      | _ \<Rightarrow> ReturnsNonFinite)"

subsection \<open>The norm in the range of float64\<close>













subsection \<open>TransformCompose\<close>

text \<open>
  \<^verbatim>\<open>
  def compose_transformation(R, t):
      transformation = np.zeros((4, 4))
      transformation[:3, :3] = R
      transformation[3, :3] = t
      transformation[3, 3] = 1.0
      return transformation
  \<close>
  A slice assignment broadcasts its right-hand side: a dimension of size 1 is repeated,
  any other mismatch is a \<open>ValueError\<close>.
\<close>

definition broadcast_vec :: "nat \<Rightarrow> vec \<Rightarrow> vec option" where
  "broadcast_vec n xs =
     (if length xs = n then Some xs
      else if length xs = 1 then Some (replicate n (xs ! 0))
      else None)"

definition broadcast_mat :: "nat \<Rightarrow> nat \<Rightarrow> mat \<Rightarrow> mat option" where
  "broadcast_mat r c M =
     (if M = [] \<or> \<not> list_all (\<lambda>row. length row = length (M ! 0)) M then None
      else if length M = r then those (map (broadcast_vec c) M)
      else if length M = 1 then map_option (replicate r) (broadcast_vec c (M ! 0))
      else None)"

definition compose_transformation :: "mat \<Rightarrow> vec \<Rightarrow> mat result" where
  "compose_transformation R t =
     (let transformation = replicate 4 (replicate 4 0) in
      case broadcast_mat 3 3 R of
        None \<Rightarrow> Raises ValueError
      | Some R' \<Rightarrow>
          let transformation =
                map2 (\<lambda>row r. r @ drop 3 row) (take 3 transformation) R' @ drop 3 transformation
          in
          (case broadcast_vec 3 t of
             None \<Rightarrow> Raises ValueError
           | Some t' \<Rightarrow>
               let transformation = transformation[3 := t' @ drop 3 (transformation ! 3)];
                   transformation = transformation[3 := (transformation ! 3)[3 := 1]]
               in Returns transformation))"

subsection \<open>RotationConversions\<close>

text \<open>
  \<open>quaternion_multiply\<close> and \<open>unit_vector\<close> are functions of the library
  \<^verbatim>\<open>tf.transformations\<close>, which the source imports as \<open>trans\<close>:
  \<^verbatim>\<open>
  def quaternion_multiply(quaternion1, quaternion0):
      x0, y0, z0, w0 = quaternion0
      x1, y1, z1, w1 = quaternion1
      return numpy.array((
           x1*w0 + y1*z0 - z1*y0 + w1*x0,
          -x1*z0 + y1*w0 + z1*x0 + w1*y0,
           x1*y0 - y1*x0 + z1*w0 + w1*z0,
          -x1*x0 - y1*y0 - z1*z0 + w1*w0), dtype=numpy.float64)

  def unit_vector(data, axis=None, out=None):
      if out is None:
          data = numpy.array(data, dtype=numpy.float64, copy=True)
          if data.ndim == 1:
              data /= math.sqrt(numpy.dot(data, data))
              return data
  \<close>
  Unpacking a sequence that has not exactly four elements raises \<open>ValueError\<close>.
\<close>

fun quaternion_multiply :: "vec \<Rightarrow> vec \<Rightarrow> vec result" where
  "quaternion_multiply [x1, y1, z1, w1] [x0, y0, z0, w0] =
     Returns [x1 * w0 + y1 * z0 - z1 * y0 + w1 * x0,
              - x1 * z0 + y1 * w0 + z1 * x0 + w1 * y0,
              x1 * y0 - y1 * x0 + z1 * w0 + w1 * z0,
              - x1 * x0 - y1 * y0 - z1 * z0 + w1 * w0]"
| "quaternion_multiply quaternion1 quaternion0 = Raises ValueError"

definition unit_vector :: "vec \<Rightarrow> npfloat list" where
  "unit_vector data =
     map (\<lambda>x. np_true_divide x (sqrt (\<Sum>(x, y)\<leftarrow>zip data data. x * y))) data"

text \<open>
  \<^verbatim>\<open>
  def rotate_vect_by_quat(v, q):
      cq = np.array([-q[0], -q[1], -q[2], q[3]])
      cq_v = trans.quaternion_multiply(cq, v)
      v = trans.quaternion_multiply(cq_v, q)
      v[1:] *= -1  # Only seemed to work when I flipped this around, ...
      return np.array(v)[:3]
  \<close>
\<close>

definition rotate_vect_by_quat :: "vec \<Rightarrow> vec \<Rightarrow> vec result" where
  "rotate_vect_by_quat v q =
     (if length q < 4 then Raises IndexError
      else
        let cq = [- (q ! 0), - (q ! 1), - (q ! 2), q ! 3] in
        result_bind (quaternion_multiply cq v) (\<lambda>cq_v.
        result_bind (quaternion_multiply cq_v q) (\<lambda>v.
        let v = take 1 v @ map (\<lambda>x. x * (- 1)) (drop 1 v) in
        Returns (take 3 v))))"

text \<open>
  \<^verbatim>\<open>
  def quat_to_rotvec(q):
      # For unit quaternion, return 0 0 0
      if np.all(np.isclose(q[0:3], 0)):
          return np.array([0., 0., 0.])
      if q[3] < 0:
          q = -q
      q = trans.unit_vector(q)
      angle = np.arccos(q[3]) * 2
      norm = np.linalg.norm(q)
      axis = q[0:3] / norm
      return axis * angle
  \<close>
  \<^verbatim>\<open>np.isclose(x, 0)\<close> has the default \<^verbatim>\<open>atol=1e-08\<close>; \<^verbatim>\<open>np.arccos\<close> is \<open>nan\<close> outside
  \<open>[-1, 1]\<close>.
\<close>

definition quat_to_rotvec :: "vec \<Rightarrow> vec result" where
  "quat_to_rotvec q =
     (if list_all (\<lambda>x. isclose x 0 (1 / 10 ^ 8)) (take 3 q) then Returns [0, 0, 0]
      else if length q < 4 then Raises IndexError
      else
        let q = (if q ! 3 < 0 then map uminus q else q) in
        case finite_values (unit_vector q) of
          None \<Rightarrow> ReturnsNonFinite
        | Some q \<Rightarrow>
            if \<not> (- 1 \<le> q ! 3 \<and> q ! 3 \<le> 1) then ReturnsNonFinite
            else
              let angle = arccos (q ! 3) * 2;
                  norm = linalg_norm q
              in
              (case finite_values (map (\<lambda>x. np_true_divide x norm) (take 3 q)) of
                 None \<Rightarrow> ReturnsNonFinite
               | Some axis \<Rightarrow> Returns (map (\<lambda>x. x * angle) axis)))"

text \<open>
  The rotation of a vector as the specification words it: the vector part of
  \<open>cq * v * q\<close> with all three vector components negated. It follows the
  specification, not the source, and is only compared with \<open>rotate_vect_by_quat\<close>.
\<close>

definition rotate_vect_by_quat_spec :: "vec \<Rightarrow> vec \<Rightarrow> vec result" where
  "rotate_vect_by_quat_spec v q =
     (if length q < 4 then Raises IndexError
      else
        result_bind (quaternion_multiply [- (q ! 0), - (q ! 1), - (q ! 2), q ! 3] v) (\<lambda>cq_v.
        result_bind (quaternion_multiply cq_v q) (\<lambda>p.
        Returns (map uminus (take 3 p)))))"

section \<open>The arrays as objects in a store\<close>

text \<open>
  A numpy array is an object: a call receives references, and an assignment through a
  reference is seen by the caller. To say what a call does to its arguments the
  operations are written once more over a store of arrays. An address is an index into
  the store; allocating appends, so an address handed out is never reused.
  \<^item> \<^verbatim>\<open>np.array(...)\<close>, \<^verbatim>\<open>np.copy(x)\<close>, \<^verbatim>\<open>np.zeros\<close>, \<^verbatim>\<open>np.eye\<close> and every arithmetic
    expression (\<^verbatim>\<open>-q\<close>, \<^verbatim>\<open>x * k\<close>, \<^verbatim>\<open>x / n\<close>, \<^verbatim>\<open>A + B\<close>, \<^verbatim>\<open>np.cross\<close>, ...) allocate
    (\<open>new_vec\<close>, \<open>new_mat\<close>);
  \<^item> an augmented assignment \<^verbatim>\<open>x op= y\<close> and an assignment to an index or a slice
    \<^verbatim>\<open>x[i] = y\<close> write the object in place (\<open>set_vec\<close>, \<open>set_mat\<close>); a slice is a view of
    the object it is taken from;
  \<^item> \<^verbatim>\<open>name = expression\<close> binds a name of the callee to an address and writes nothing.

  The values are those of the functions above (\<open>rotate_vect_by_quat_st_refines\<close> and
  the lemmas after it). An array with a \<open>nan\<close> or \<open>inf\<close> entry is fresh wherever the source
  produces one; the call then ends in \<open>ReturnsNonFinite\<close> and the array is not stored.
\<close>

type_synonym addr = nat

record store =
  vecs :: "vec list"
  mats :: "mat list"

type_synonym 'a action = "store \<Rightarrow> store \<times> 'a result"

text \<open>An action runs on a store and returns the store it leaves and what the call did.\<close>

definition st_bind :: "'a action \<Rightarrow> ('a \<Rightarrow> 'b action) \<Rightarrow> 'b action" where
  "st_bind m f s =
     (case m s of
        (s', Returns x) \<Rightarrow> f x s'
      | (s', Raises e) \<Rightarrow> (s', Raises e)
      | (s', ReturnsNonFinite) \<Rightarrow> (s', ReturnsNonFinite))"

definition st_result :: "'a result \<Rightarrow> 'a action" where
  "st_result r s = (s, r)"

definition get_vec :: "addr \<Rightarrow> vec action" where
  "get_vec a s = (s, Returns (vecs s ! a))"

definition get_mat :: "addr \<Rightarrow> mat action" where
  "get_mat a s = (s, Returns (mats s ! a))"

definition new_vec :: "vec \<Rightarrow> addr action" where
  "new_vec xs s = (s\<lparr>vecs := vecs s @ [xs]\<rparr>, Returns (length (vecs s)))"

definition new_mat :: "mat \<Rightarrow> addr action" where
  "new_mat A s = (s\<lparr>mats := mats s @ [A]\<rparr>, Returns (length (mats s)))"

definition new_float_vec :: "npfloat list \<Rightarrow> addr action" where
  "new_float_vec fs =
     (case finite_values fs of None \<Rightarrow> st_result ReturnsNonFinite | Some xs \<Rightarrow> new_vec xs)"

definition set_vec :: "addr \<Rightarrow> vec \<Rightarrow> unit action" where
  "set_vec a xs s = (s\<lparr>vecs := (vecs s)[a := xs]\<rparr>, Returns ())"

definition set_float_vec :: "addr \<Rightarrow> npfloat list \<Rightarrow> unit action" where
  "set_float_vec a fs =
     (case finite_values fs of None \<Rightarrow> st_result ReturnsNonFinite | Some xs \<Rightarrow> set_vec a xs)"

definition set_mat :: "addr \<Rightarrow> mat \<Rightarrow> unit action" where
  "set_mat a A s = (s\<lparr>mats := (mats s)[a := A]\<rparr>, Returns ())"

text \<open>
  \<open>extends s s'\<close>: every array of \<open>s\<close> is in \<open>s'\<close> at its address with the same entries;
  \<open>s'\<close> may hold more arrays.
\<close>

definition extends :: "store \<Rightarrow> store \<Rightarrow> bool" where
  "extends s s' \<longleftrightarrow>
     take (length (vecs s)) (vecs s') = vecs s \<and> take (length (mats s)) (mats s') = mats s"

text \<open>\<^verbatim>\<open>trans.quaternion_multiply\<close> builds its result with \<^verbatim>\<open>numpy.array\<close>.\<close>

definition quaternion_multiply_st :: "addr \<Rightarrow> addr \<Rightarrow> addr action" where
  "quaternion_multiply_st quaternion1 quaternion0 =
     st_bind (get_vec quaternion1) (\<lambda>q1.
     st_bind (get_vec quaternion0) (\<lambda>q0.
     st_bind (st_result (quaternion_multiply q1 q0)) new_vec))"

text \<open>
  \<open>rotate_vect_by_quat\<close>: \<^verbatim>\<open>v = trans.quaternion_multiply(cq_v, q)\<close> rebinds \<open>v\<close> to the
  product, \<^verbatim>\<open>v[1:] *= -1\<close> writes that object, \<^verbatim>\<open>np.array(v)\<close> copies it and \<^verbatim>\<open>[:3]\<close> is
  a view of the copy.
\<close>

definition rotate_vect_by_quat_st :: "addr \<Rightarrow> addr \<Rightarrow> addr action" where
  "rotate_vect_by_quat_st v q =
     st_bind (get_vec q) (\<lambda>qs.
     if length qs < 4 then st_result (Raises IndexError)
     else
       st_bind (new_vec [- (qs ! 0), - (qs ! 1), - (qs ! 2), qs ! 3]) (\<lambda>cq.
       st_bind (quaternion_multiply_st cq v) (\<lambda>cq_v.
       st_bind (quaternion_multiply_st cq_v q) (\<lambda>v.
       st_bind (get_vec v) (\<lambda>vs.
       st_bind (set_vec v (take 1 vs @ map (\<lambda>x. x * (- 1)) (drop 1 vs))) (\<lambda>_.
       st_bind (get_vec v) (\<lambda>vs.
       st_bind (new_vec vs) (\<lambda>copy.
       st_bind (get_vec copy) (\<lambda>cs.
       new_vec (take 3 cs))))))))))"

text \<open>\<open>clip_norm\<close>: \<^verbatim>\<open>np.copy(vector)\<close>, or \<^verbatim>\<open>(vector * bound) / norm\<close>.\<close>

definition clip_norm_st :: "addr \<Rightarrow> real \<Rightarrow> real \<Rightarrow> addr action" where
  "clip_norm_st vector lower_bound upper_bound =
     st_bind (get_vec vector) (\<lambda>vs.
     let norm = linalg_norm vs in
     if lower_bound < norm \<and> norm < upper_bound then new_vec vs
     else if norm < lower_bound
       then st_bind (new_vec (map (\<lambda>x. x * lower_bound) vs)) (\<lambda>scaled.
            st_bind (get_vec scaled) (\<lambda>ss.
            new_float_vec (map (\<lambda>x. np_true_divide x norm) ss)))
       else st_bind (new_vec (map (\<lambda>x. x * upper_bound) vs)) (\<lambda>scaled.
            st_bind (get_vec scaled) (\<lambda>ss.
            new_float_vec (map (\<lambda>x. np_true_divide x norm) ss))))"

text \<open>
  \<^verbatim>\<open>trans.unit_vector\<close>: \<^verbatim>\<open>data = numpy.array(data, dtype=numpy.float64, copy=True)\<close>, then
  \<^verbatim>\<open>data /= math.sqrt(numpy.dot(data, data))\<close> on the copy.
\<close>

definition unit_vector_st :: "addr \<Rightarrow> addr action" where
  "unit_vector_st data =
     st_bind (get_vec data) (\<lambda>ds.
     st_bind (new_vec ds) (\<lambda>data.
     st_bind (get_vec data) (\<lambda>ds.
     st_bind (set_float_vec data
                (map (\<lambda>x. np_true_divide x (sqrt (\<Sum>(x, y)\<leftarrow>zip ds ds. x * y))) ds)) (\<lambda>_.
     st_result (Returns data)))))"

text \<open>\<open>quat_to_rotvec\<close>: \<^verbatim>\<open>q = -q\<close> binds \<open>q\<close> to a new, negated array.\<close>

definition quat_to_rotvec_st :: "addr \<Rightarrow> addr action" where
  "quat_to_rotvec_st q =
     st_bind (get_vec q) (\<lambda>qs.
     if list_all (\<lambda>x. isclose x 0 (1 / 10 ^ 8)) (take 3 qs) then new_vec [0, 0, 0]
     else if length qs < 4 then st_result (Raises IndexError)
     else
       st_bind (if qs ! 3 < 0 then new_vec (map uminus qs) else st_result (Returns q)) (\<lambda>q.
       st_bind (unit_vector_st q) (\<lambda>q.
       st_bind (get_vec q) (\<lambda>qs.
       if \<not> (- 1 \<le> qs ! 3 \<and> qs ! 3 \<le> 1) then st_result ReturnsNonFinite
       else
         let angle = arccos (qs ! 3) * 2;
             norm = linalg_norm qs
         in
         st_bind (new_float_vec (map (\<lambda>x. np_true_divide x norm) (take 3 qs))) (\<lambda>axis.
         st_bind (get_vec axis) (\<lambda>xs.
         new_vec (map (\<lambda>x. x * angle) xs)))))))"

text \<open>\<open>normalize\<close>, \<open>skew_symmetric_cross\<close> and \<open>deskew\<close> build one array each.\<close>

definition normalize_st :: "addr \<Rightarrow> addr action" where
  "normalize_st vector = st_bind (get_vec vector) (\<lambda>vs. new_float_vec (normalize_np vs))"

definition skew_symmetric_cross_st :: "addr \<Rightarrow> addr action" where
  "skew_symmetric_cross_st a =
     st_bind (get_vec a) (\<lambda>xs. st_bind (st_result (skew_symmetric_cross xs)) new_mat)"

definition deskew_st :: "addr \<Rightarrow> addr action" where
  "deskew_st A = st_bind (get_mat A) (\<lambda>Am. st_bind (st_result (deskew Am)) new_vec)"

text \<open>
  \<open>make_rotation\<close>: \<^verbatim>\<open>R[2, 2] *= -1\<close> writes the matrix that \<^verbatim>\<open>np.eye(3)\<close> has just
  built, and \<^verbatim>\<open>R[:, 3] *= -1\<close> raises before it writes.
\<close>

definition make_rotation_st :: "addr \<Rightarrow> addr \<Rightarrow> addr action" where
  "make_rotation_st vector_a vector_b =
     st_bind (normalize_st vector_a) (\<lambda>unit_a.
     st_bind (normalize_st vector_b) (\<lambda>unit_b.
     st_bind (get_vec unit_a) (\<lambda>ua.
     st_bind (get_vec unit_b) (\<lambda>ub.
     st_bind (st_bind (st_result (cross ua ub)) new_vec) (\<lambda>v.
     st_bind (get_vec v) (\<lambda>vs.
     let s = linalg_norm vs in
     st_bind (st_result (dot ua ub)) (\<lambda>c.
     st_bind (skew_symmetric_cross_st v) (\<lambda>skew_cross.
     st_bind (get_mat skew_cross) (\<lambda>K.
     st_bind (new_mat (matrix_power2 K)) (\<lambda>skew_squared.
     st_bind (get_mat skew_squared) (\<lambda>K2.
     if isclose c 1 (1 / 10 ^ 4) then new_mat eye3
     else if isclose c (- 1) (1 / 10 ^ 4)
       then st_bind (new_mat eye3) (\<lambda>R.
            st_bind (get_mat R) (\<lambda>Rm.
            st_bind (set_mat R (Rm[2 := (Rm ! 2)[2 := Rm ! 2 ! 2 * (- 1)]])) (\<lambda>_.
            st_result (Returns R))))
     else
       (case np_true_divide (1 - c) (s\<^sup>2) of
          Fin normalization \<Rightarrow>
            st_bind (new_mat (mat_scale K2 normalization)) (\<lambda>scaled.
            st_bind (get_mat scaled) (\<lambda>S.
            st_bind (new_mat (mat_add (mat_add eye3 K) S)) (\<lambda>R.
            st_bind (get_mat R) (\<lambda>Rm.
            if det3 Rm < 0 then st_result (Raises IndexError)
            else st_result (Returns R)))))
        | _ \<Rightarrow> st_result ReturnsNonFinite))))))))))))"

text \<open>\<open>compose_transformation\<close>: the three slice assignments write the new matrix.\<close>

definition compose_transformation_st :: "addr \<Rightarrow> addr \<Rightarrow> addr action" where
  "compose_transformation_st R t =
     st_bind (new_mat (replicate 4 (replicate 4 0))) (\<lambda>transformation.
     st_bind (get_mat R) (\<lambda>Rm.
     (case broadcast_mat 3 3 Rm of
        None \<Rightarrow> st_result (Raises ValueError)
      | Some R' \<Rightarrow>
          st_bind (get_mat transformation) (\<lambda>T.
          st_bind (set_mat transformation
                     (map2 (\<lambda>row r. r @ drop 3 row) (take 3 T) R' @ drop 3 T)) (\<lambda>_.
          st_bind (get_vec t) (\<lambda>ts.
          (case broadcast_vec 3 ts of
             None \<Rightarrow> st_result (Raises ValueError)
           | Some t' \<Rightarrow>
               st_bind (get_mat transformation) (\<lambda>T.
               st_bind (set_mat transformation (T[3 := t' @ drop 3 (T ! 3)])) (\<lambda>_.
               st_bind (get_mat transformation) (\<lambda>T.
               st_bind (set_mat transformation (T[3 := (T ! 3)[3 := 1]])) (\<lambda>_.
               st_result (Returns transformation))))))))))))"

text \<open>
  \<^verbatim>\<open>
  def project_pt_to_plane(point, plane_normal):
      dist = np.dot(plane_normal, point)
      projected = point - (dist * plane_normal)
      return projected
  \<close>
\<close>

definition project_pt_to_plane_st :: "addr \<Rightarrow> addr \<Rightarrow> addr action" where
  "project_pt_to_plane_st point plane_normal =
     st_bind (get_vec plane_normal) (\<lambda>ns.
     st_bind (get_vec point) (\<lambda>ps.
     st_bind (st_result (dot ns ps)) (\<lambda>dist.
     st_bind (new_vec (map (\<lambda>x. dist * x) ns)) (\<lambda>scaled.
     st_bind (get_vec scaled) (\<lambda>ss.
     new_vec (map2 (-) ps ss))))))"

text \<open>The array a call returns, read from the store it leaves.\<close>

definition vec_at :: "store \<times> addr result \<Rightarrow> vec result" where
  "vec_at p = result_bind (snd p) (\<lambda>a. Returns (vecs (fst p) ! a))"

definition mat_at :: "store \<times> addr result \<Rightarrow> mat result" where
  "mat_at p = result_bind (snd p) (\<lambda>a. Returns (mats (fst p) ! a))"

text \<open>An address that no array of \<open>s\<close> has.\<close>

definition fresh_vec :: "store \<Rightarrow> addr \<Rightarrow> bool" where
  "fresh_vec s a \<longleftrightarrow> length (vecs s) \<le> a"

definition fresh_mat :: "store \<Rightarrow> addr \<Rightarrow> bool" where
  "fresh_mat s a \<longleftrightarrow> length (mats s) \<le> a"

text \<open>
  \<open>frame s0 m Q\<close>: started from any store that extends \<open>s0\<close>, the action \<open>m\<close> leaves a store
  that extends \<open>s0\<close>, and a value it returns satisfies \<open>Q\<close>.
\<close>

definition frame :: "store \<Rightarrow> 'a action \<Rightarrow> ('a \<Rightarrow> bool) \<Rightarrow> bool" where
  "frame s0 m Q \<longleftrightarrow>
     (\<forall>s. extends s0 s \<longrightarrow>
        extends s0 (fst (m s)) \<and> (\<forall>x. snd (m s) = Returns x \<longrightarrow> Q x))"

text \<open>A store with a 3-vector and three quaternions, for the examples.\<close>

definition example_store :: store where
  "example_store =
     \<lparr>vecs = [[3, 4, 0], [3, 0, 0, 4], [1, 2, 3, 0], [0, 0, 1, 0]], mats = []\<rparr>"

section \<open>Properties\<close>

subsection \<open>Rounding to float32\<close>

lemma to_float32_minus: "to_float32 (- x) = - to_float32 x"
  by (simp add: to_float32_def float32_ulp_def sgn_minus)

lemma to_float32_zero: "to_float32 0 = 0"
  by (simp add: to_float32_def)

lemma round_half_even_of_int: "round_half_even (of_int k) = k"
  by (simp add: round_half_even_def)

lemma round_half_even_lower: "of_int k \<le> r \<Longrightarrow> k \<le> round_half_even r"
proof -
  assume "of_int k \<le> r"
  then have "k \<le> \<lfloor>r\<rfloor>" by (simp add: le_floor_iff)
  then show ?thesis by (simp add: round_half_even_def Let_def)
qed

lemma round_half_even_upper: "r \<le> of_int k \<Longrightarrow> round_half_even r \<le> k"
proof -
  assume h: "r \<le> of_int k"
  have fl: "\<lfloor>r\<rfloor> \<le> k" using h by (simp add: floor_le_iff)
  show ?thesis
  proof (cases "r = of_int \<lfloor>r\<rfloor>")
    case True
    then show ?thesis using fl by (simp add: round_half_even_def Let_def)
  next
    case False
    then have "of_int \<lfloor>r\<rfloor> < r" using of_int_floor_le [of r] by linarith
    then have "of_int \<lfloor>r\<rfloor> < (of_int k :: real)" using h by linarith
    then have "\<lfloor>r\<rfloor> + 1 \<le> k" by simp
    then show ?thesis using fl by (simp add: round_half_even_def Let_def)
  qed
qed

lemma floor_log2_bounds:
  assumes "0 < a"
  shows "2 powr of_int \<lfloor>log 2 a\<rfloor> \<le> a" and "a < 2 powr (of_int \<lfloor>log 2 a\<rfloor> + 1)"
  using assms floor_log_eq_powr_iff [of a 2 "\<lfloor>log 2 a\<rfloor>"] by auto

text \<open>A float32 value is not changed by a second conversion.\<close>

lemma to_float32_idem: "to_float32 (to_float32 x) = to_float32 x"
proof (cases "x = 0")
  case True
  then show ?thesis by (simp add: to_float32_def)
next
  case False
  define a :: real where "a = \<bar>x\<bar>"
  define e where "e = \<lfloor>log 2 a\<rfloor>"
  define u :: real where "u = 2 powr (of_int e - 23)"
  define m where "m = round_half_even (a / u)"
  define y where "y = to_float32 x"
  have apos: "0 < a" using False by (simp add: a_def)
  have upos: "0 < u" by (simp add: u_def)
  have ulp: "float32_ulp x = u" by (simp add: float32_ulp_def u_def e_def a_def)
  have ydef: "y = sgn x * (of_int m * u)"
    using False by (simp add: y_def to_float32_def ulp m_def a_def)
  have pe: "2 powr of_int e = 2 ^ 23 * u"
    by (simp add: u_def powr_diff)
  have pe1: "2 powr (of_int e + 1) = 2 ^ 24 * u"
    by (simp add: u_def powr_diff powr_add)
  have lo: "2 ^ 23 * u \<le> a" and hi: "a < 2 ^ 24 * u"
    using floor_log2_bounds [OF apos] pe pe1 by (simp_all add: e_def)
  have "of_int (2 ^ 23) \<le> a / u" using lo upos by (simp add: pos_le_divide_eq)
  then have mlo: "2 ^ 23 \<le> m" unfolding m_def by (rule round_half_even_lower)
  have "a / u \<le> of_int (2 ^ 24)" using hi upos by (simp add: pos_divide_le_eq)
  then have mhi: "m \<le> 2 ^ 24" unfolding m_def by (rule round_half_even_upper)
  have mpos: "0 < m" using mlo by simp
  have absy: "\<bar>y\<bar> = of_int m * u"
    using False mpos upos by (simp add: ydef abs_mult abs_sgn_eq)
  have yne: "y \<noteq> 0" using absy mpos upos by auto
  have sgny: "sgn y = sgn x"
    using mpos upos by (simp add: ydef sgn_mult)
  show ?thesis
  proof (cases "m = 2 ^ 24")
    case True
    have ay: "\<bar>y\<bar> = 2 powr (of_int (e + 1))" using absy True pe1 by simp
    have fl: "\<lfloor>log 2 \<bar>y\<bar>\<rfloor> = e + 1" unfolding ay by simp
    have ulpy: "float32_ulp y = 2 * u"
      by (simp add: float32_ulp_def fl u_def powr_diff powr_add)
    have "\<bar>y\<bar> / float32_ulp y = of_int (2 ^ 23)"
      using upos by (simp add: ulpy absy True)
    then have "round_half_even (\<bar>y\<bar> / float32_ulp y) = 2 ^ 23"
      by (simp only: round_half_even_of_int)
    then have "to_float32 y = sgn x * (of_int (2 ^ 23) * (2 * u))"
      using yne by (simp add: to_float32_def sgny ulpy)
    also have "\<dots> = y" by (simp add: ydef True)
    finally show ?thesis by (simp add: y_def)
  next
    case False
    then have mlt: "m < 2 ^ 24" using mhi by simp
    have "2 powr of_int e \<le> \<bar>y\<bar>"
      using mlo upos by (simp add: absy pe)
    moreover have "\<bar>y\<bar> < 2 powr (of_int e + 1)"
    proof -
      have "(of_int m :: real) < 2 ^ 24"
        using mlt by (metis of_int_less_iff of_int_numeral of_int_power)
      then show ?thesis using upos by (simp add: absy pe1)
    qed
    ultimately have fl: "\<lfloor>log 2 \<bar>y\<bar>\<rfloor> = e"
      using yne by (subst floor_log_eq_powr_iff) (auto simp: add.commute)
    have ulpy: "float32_ulp y = u" by (simp add: float32_ulp_def fl u_def)
    have "\<bar>y\<bar> / float32_ulp y = of_int m" using upos by (simp add: ulpy absy)
    then have "round_half_even (\<bar>y\<bar> / float32_ulp y) = m"
      by (simp only: round_half_even_of_int)
    then have "to_float32 y = sgn x * (of_int m * u)"
      using yne by (simp add: to_float32_def sgny ulpy)
    then show ?thesis by (simp add: ydef [symmetric] y_def)
  qed
qed

lemma to_float32_one: "to_float32 1 = 1"
proof -
  have u: "float32_ulp 1 = 1 / 2 ^ 23"
    by (simp add: float32_ulp_def powr_minus_divide)
  have "round_half_even (\<bar>1\<bar> / float32_ulp 1) = round_half_even (of_int (2 ^ 23))"
    by (simp add: u)
  then have "round_half_even (\<bar>1\<bar> / float32_ulp 1) = 2 ^ 23"
    by (simp only: round_half_even_of_int)
  then show ?thesis by (simp add: to_float32_def u)
qed

text \<open>One tenth is not a float32 value: the nearest one is \<open>13421773 / 2^27\<close>.\<close>

lemma floor_log2_tenth: "\<lfloor>log 2 (1 / 10 :: real)\<rfloor> = - 4"
proof -
  have "(2::real) powr (of_int (- 4)) \<le> 1 / 10" by (simp add: powr_minus)
  moreover have "(1 / 10 :: real) < 2 powr (of_int (- 4) + 1)" by (simp add: powr_minus)
  ultimately show ?thesis
    by (subst floor_log_eq_powr_iff) auto
qed

lemma to_float32_tenth: "to_float32 (1 / 10) = 13421773 / 134217728"
proof -
  have u: "float32_ulp (1 / 10) = 1 / 2 ^ 27"
    by (simp add: float32_ulp_def floor_log2_tenth powr_minus powr_numeral inverse_eq_divide
        del: powr_minus_divide)
  have f: "\<lfloor>67108864 / 5 :: real\<rfloor> = 13421772" by (simp add: floor_eq_iff)
  have r: "round_half_even (67108864 / 5) = 13421773"
    by (simp add: round_half_even_def f)
  show ?thesis
    by (simp add: to_float32_def u r)
qed

subsection \<open>Vectors of three components\<close>

lemma length3_cases: "length a = 3 \<Longrightarrow> \<exists>x y z. a = [x, y, z]"
  by (cases a; simp; cases "tl a"; simp; cases "tl (tl a)"; auto)







subsection \<open>The skew matrix and the Rodrigues matrix\<close>

lemma skew3:
  "skew_symmetric_cross [x, y, z] =
     Returns [[0, - to_float32 z, to_float32 y],
              [to_float32 z, 0, - to_float32 x],
              [- to_float32 y, to_float32 x, 0]]"
  by (simp add: skew_symmetric_cross_def to_float32_minus to_float32_zero)




subsection \<open>The norm in the range of float64\<close>














lemma arccos_pos: "- 1 \<le> y \<Longrightarrow> y < 1 \<Longrightarrow> 0 < arccos y"
proof -
  assume h: "- 1 \<le> y" "y < 1"
  have "0 \<le> arccos y" using h by (simp add: arccos_lbound)
  moreover have "arccos y \<noteq> 0"
  proof
    assume "arccos y = 0"
    then have "cos (arccos y) = 1" by simp
    then show False using h by (simp add: cos_arccos)
  qed
  ultimately show ?thesis by simp
qed

subsection \<open>Actions that only extend the store\<close>

lemma extends_refl: "extends s s"
  by (simp add: extends_def)

lemma extends_length:
  "extends s0 s \<Longrightarrow> length (vecs s0) \<le> length (vecs s) \<and> length (mats s0) \<le> length (mats s)"
  by (metis extends_def length_take min.cobounded1)

lemma frame_bind:
  assumes "frame s0 m Q" and "\<And>x. Q x \<Longrightarrow> frame s0 (f x) Q'"
  shows "frame s0 (st_bind m f) Q'"
  unfolding frame_def
proof (intro allI impI)
  fix s assume e: "extends s0 s"
  obtain s' r where m: "m s = (s', r)" by (cases "m s")
  have e': "extends s0 s'" and q: "\<And>x. r = Returns x \<Longrightarrow> Q x"
    using assms(1) e m by (auto simp: frame_def)
  show "extends s0 (fst (st_bind m f s)) \<and> (\<forall>x. snd (st_bind m f s) = Returns x \<longrightarrow> Q' x)"
  proof (cases r)
    case (Returns x)
    then have "frame s0 (f x) Q'" using q assms(2) by simp
    then show ?thesis using e' by (simp add: st_bind_def m Returns frame_def)
  next
    case (Raises e)
    then show ?thesis using e' by (simp add: st_bind_def m)
  next
    case ReturnsNonFinite
    then show ?thesis using e' by (simp add: st_bind_def m)
  qed
qed

lemma frame_if:
  "(c \<Longrightarrow> frame s0 m Q) \<Longrightarrow> (\<not> c \<Longrightarrow> frame s0 m' Q) \<Longrightarrow> frame s0 (if c then m else m') Q"
  by simp

lemma frame_result: "frame s0 (st_result r) (\<lambda>_. True)"
  by (simp add: frame_def st_result_def)

lemma frame_raises: "frame s0 (st_result (Raises e)) Q"
  by (simp add: frame_def st_result_def)

lemma frame_nonfinite: "frame s0 (st_result ReturnsNonFinite) Q"
  by (simp add: frame_def st_result_def)

lemma frame_returns: "Q x \<Longrightarrow> frame s0 (st_result (Returns x)) Q"
  by (simp add: frame_def st_result_def)

lemma frame_get_vec: "frame s0 (get_vec a) (\<lambda>_. True)"
  by (simp add: frame_def get_vec_def)

lemma frame_get_mat: "frame s0 (get_mat a) (\<lambda>_. True)"
  by (simp add: frame_def get_mat_def)

lemma frame_new_vec: "frame s0 (new_vec xs) (fresh_vec s0)"
  unfolding frame_def
proof (intro allI impI)
  fix s assume e: "extends s0 s"
  then have "length (vecs s0) \<le> length (vecs s)" by (simp add: extends_length)
  then show "extends s0 (fst (new_vec xs s)) \<and>
      (\<forall>x. snd (new_vec xs s) = Returns x \<longrightarrow> fresh_vec s0 x)"
    using e by (simp add: new_vec_def extends_def fresh_vec_def)
qed

lemma frame_new_mat: "frame s0 (new_mat A) (fresh_mat s0)"
  unfolding frame_def
proof (intro allI impI)
  fix s assume e: "extends s0 s"
  then have "length (mats s0) \<le> length (mats s)" by (simp add: extends_length)
  then show "extends s0 (fst (new_mat A s)) \<and>
      (\<forall>x. snd (new_mat A s) = Returns x \<longrightarrow> fresh_mat s0 x)"
    using e by (simp add: new_mat_def extends_def fresh_mat_def)
qed

lemma frame_new_float_vec: "frame s0 (new_float_vec fs) (fresh_vec s0)"
  by (cases "finite_values fs") (simp_all add: new_float_vec_def frame_new_vec frame_nonfinite)

lemma frame_set_vec: "fresh_vec s0 a \<Longrightarrow> frame s0 (set_vec a xs) (\<lambda>_. True)"
  by (simp add: frame_def set_vec_def extends_def fresh_vec_def)

lemma frame_set_mat: "fresh_mat s0 a \<Longrightarrow> frame s0 (set_mat a A) (\<lambda>_. True)"
  by (simp add: frame_def set_mat_def extends_def fresh_mat_def)

lemma frame_set_float_vec: "fresh_vec s0 a \<Longrightarrow> frame s0 (set_float_vec a fs) (\<lambda>_. True)"
  by (cases "finite_values fs") (simp_all add: set_float_vec_def frame_set_vec frame_nonfinite)

lemma frame_rebind:
  "frame s0 (if c then new_vec xs else st_result (Returns q)) (\<lambda>_. True)"
  using frame_new_vec [of s0 xs] by (simp add: frame_def st_result_def)

lemma frame_npfloat_case:
  "(\<And>x. frame s0 (m x) Q) \<Longrightarrow> frame s0 m' Q \<Longrightarrow>
   frame s0 (case f of Fin x \<Rightarrow> m x | PInf \<Rightarrow> m' | NInf \<Rightarrow> m' | NaN \<Rightarrow> m') Q"
  by (cases f) simp_all

lemma frame_option_case:
  "frame s0 m Q \<Longrightarrow> (\<And>y. frame s0 (m' y) Q) \<Longrightarrow>
   frame s0 (case x of None \<Rightarrow> m | Some y \<Rightarrow> m' y) Q"
  by (cases x) simp_all

lemmas frame_rules = frame_raises frame_nonfinite frame_get_vec frame_get_mat frame_new_vec
  frame_new_mat frame_new_float_vec frame_set_vec frame_set_mat frame_set_float_vec
  frame_rebind frame_result frame_returns frame_bind frame_if frame_npfloat_case
  frame_option_case

text \<open>A store written at an old address is not an extension: the predicate can fail.\<close>

lemma set_vec_breaks_extends:
  "\<not> extends \<lparr>vecs = [[1, 2, 3]], mats = []\<rparr>
       (fst (set_vec 0 [- 1, - 2, - 3] \<lparr>vecs = [[1, 2, 3]], mats = []\<rparr>))"
  by (simp add: extends_def set_vec_def)

lemma frame_quaternion_multiply_st:
  "frame s0 (quaternion_multiply_st a b) (fresh_vec s0)"
  unfolding quaternion_multiply_st_def
  by (rule frame_rules | assumption)+

lemma frame_rotate_vect_by_quat_st:
  "frame s0 (rotate_vect_by_quat_st v q) (fresh_vec s0)"
  unfolding rotate_vect_by_quat_st_def
  by (rule frame_quaternion_multiply_st frame_rules | assumption)+

lemma frame_clip_norm_st:
  "frame s0 (clip_norm_st v lo hi) (fresh_vec s0)"
  unfolding clip_norm_st_def Let_def
  by (rule frame_rules | assumption)+

lemma frame_unit_vector_st: "frame s0 (unit_vector_st q) (fresh_vec s0)"
  unfolding unit_vector_st_def
  by (rule frame_rules | assumption)+

lemma frame_quat_to_rotvec_st: "frame s0 (quat_to_rotvec_st q) (fresh_vec s0)"
  unfolding quat_to_rotvec_st_def Let_def
  by (rule frame_unit_vector_st frame_rules | assumption)+

lemma frame_normalize_st: "frame s0 (normalize_st a) (fresh_vec s0)"
  unfolding normalize_st_def
  by (rule frame_rules | assumption)+

lemma frame_skew_symmetric_cross_st: "frame s0 (skew_symmetric_cross_st a) (fresh_mat s0)"
  unfolding skew_symmetric_cross_st_def
  by (rule frame_rules | assumption)+

lemma frame_deskew_st: "frame s0 (deskew_st a) (fresh_vec s0)"
  unfolding deskew_st_def
  by (rule frame_rules | assumption)+

lemma frame_make_rotation_st: "frame s0 (make_rotation_st a b) (fresh_mat s0)"
  unfolding make_rotation_st_def Let_def
  by (rule frame_normalize_st frame_skew_symmetric_cross_st frame_rules | assumption)+

lemma frame_compose_transformation_st:
  "frame s0 (compose_transformation_st R t) (fresh_mat s0)"
  unfolding compose_transformation_st_def
  by (rule frame_rules | assumption)+

lemma frame_project_pt_to_plane_st:
  "frame s0 (project_pt_to_plane_st p n) (fresh_vec s0)"
  unfolding project_pt_to_plane_st_def
  by (rule frame_rules | assumption)+

text \<open>What a frame gives for the store the call starts from.\<close>

lemma frame_extends: "frame s m Q \<Longrightarrow> extends s (fst (m s))"
  using extends_refl [of s] by (auto simp: frame_def)

lemma frame_fresh: "frame s m Q \<Longrightarrow> snd (m s) = Returns r \<Longrightarrow> Q r"
  using extends_refl [of s] by (auto simp: frame_def)

subsection \<open>The store operations compute the values of the functions\<close>

lemmas st_defs = st_bind_def st_result_def get_vec_def get_mat_def new_vec_def new_mat_def
  new_float_vec_def set_vec_def set_float_vec_def set_mat_def vec_at_def mat_at_def

lemma rotate_vect_by_quat_st_refines:
  assumes "v < length (vecs s)" and "q < length (vecs s)"
  shows "vec_at (rotate_vect_by_quat_st v q s) = rotate_vect_by_quat (vecs s ! v) (vecs s ! q)"
  using assms
  by (simp add: rotate_vect_by_quat_st_def rotate_vect_by_quat_def quaternion_multiply_st_def
      st_defs result_bind_def nth_append Let_def split: result.splits)

lemma finite_values_map_Fin: "finite_values (map Fin xs) = Some xs"
  by (induction xs) simp_all

lemma clip_norm_st_refines:
  "vec_at (clip_norm_st v lo hi s) =
     (case finite_values (clip_norm (vecs s ! v) lo hi) of
        Some xs \<Rightarrow> Returns xs | None \<Rightarrow> ReturnsNonFinite)"
  by (simp add: clip_norm_st_def clip_norm_def st_defs result_bind_def nth_append Let_def
      comp_def finite_values_map_Fin split: option.splits)

lemma quat_to_rotvec_st_refines:
  "vec_at (quat_to_rotvec_st q s) = quat_to_rotvec (vecs s ! q)"
  by (simp add: quat_to_rotvec_st_def quat_to_rotvec_def unit_vector_st_def unit_vector_def
      st_defs result_bind_def nth_append Let_def comp_def split: option.splits)

lemma normalize_st_refines:
  "vec_at (normalize_st v s) =
     (case finite_values (normalize_np (vecs s ! v)) of
        Some xs \<Rightarrow> Returns xs | None \<Rightarrow> ReturnsNonFinite)"
  by (simp add: normalize_st_def st_defs result_bind_def split: option.splits)

lemma compose_transformation_st_refines:
  assumes "R < length (mats s)"
  shows "mat_at (compose_transformation_st R t s)
     = compose_transformation (mats s ! R) (vecs s ! t)"
  using assms
  by (simp add: compose_transformation_st_def compose_transformation_def st_defs
      result_bind_def nth_append Let_def split: option.splits)

lemma skew_symmetric_cross_st_refines:
  "mat_at (skew_symmetric_cross_st a s) = skew_symmetric_cross (vecs s ! a)"
  by (simp add: skew_symmetric_cross_st_def st_defs result_bind_def split: result.splits)

lemma deskew_st_refines: "vec_at (deskew_st A s) = deskew (mats s ! A)"
  by (simp add: deskew_st_def st_defs result_bind_def split: result.splits)

lemma make_rotation_st_refines:
  assumes "a < length (vecs s)" and "b < length (vecs s)"
  shows "mat_at (make_rotation_st a b s) = make_rotation (vecs s ! a) (vecs s ! b)"
proof (cases "finite_values (normalize_np (vecs s ! a))")
  case None
  then show ?thesis
    by (simp add: make_rotation_st_def make_rotation_def normalize_st_def st_defs result_bind_def)
next
  case ua: (Some ua)
  show ?thesis
  proof (cases "finite_values (normalize_np (vecs s ! b))")
    case None
    then show ?thesis
      using ua assms
      by (simp add: make_rotation_st_def make_rotation_def normalize_st_def st_defs
          result_bind_def nth_append)
  next
    case ub: (Some ub)
    show ?thesis
      using ua ub assms
      by (simp add: make_rotation_st_def make_rotation_def make_rotation_from_units_def
          normalize_st_def skew_symmetric_cross_st_def st_defs result_bind_def nth_append
          Let_def rodrigues_def eye3_def
          split: result.splits npfloat.splits cong: npfloat.case_cong)
  qed
qed

section \<open>The claims\<close>

subsection \<open>C1: the rotation vector of a quaternion\<close>

text \<open>
  C1 says that for a quaternion whose vector part is not approximately zero,
  \<open>quat_to_rotvec\<close> divides the vector part by its own norm, so that the result has the
  rotation angle as its magnitude and the unit rotation axis as its direction. The source
  divides by \<^verbatim>\<open>np.linalg.norm(q)\<close>, the norm of the whole, already normalised quaternion,
  which is 1. At \<open>q = [3, 0, 0, 4]\<close> the unit quaternion is \<open>[0.6, 0, 0, 0.8]\<close>, the angle
  is \<open>2 arccos 0.8\<close>, and the value returned is \<open>0.6\<close> times the angle along the x axis:
  its magnitude is smaller than the angle.
\<close>

theorem quat_to_rotvec_scaled_by_sine:
  "quat_to_rotvec [3, 0, 0, 4] = Returns [6 / 5 * arccos (4 / 5), 0, 0]
   \<and> linalg_norm [6 / 5 * arccos (4 / 5), 0, 0] < 2 * arccos (4 / 5)"
proof -
  have "quat_to_rotvec [3, 0, 0, 4] = Returns [6 / 5 * arccos (4 / 5), 0, 0]"
    by (simp add: quat_to_rotvec_def isclose_def unit_vector_def np_true_divide_def
        linalg_norm_def power_divide)
  moreover have "linalg_norm [6 / 5 * arccos (4 / 5), 0, 0] < 2 * arccos (4 / 5)"
    using arccos_pos [of "4 / 5"] by (simp add: linalg_norm_def)
  ultimately show ?thesis by simp
qed

subsection \<open>C2: rotating a vector by a quaternion\<close>

text \<open>
  C2 says that \<open>rotate_vect_by_quat\<close> returns the vector part of \<open>cq * v * q\<close> with all
  three vector components negated. It does not: with \<open>q\<close> the identity quaternion and
  \<open>v\<close> the x axis, the source returns the x axis, the claim its negation.
\<close>

theorem rotate_vect_by_quat_not_spec:
  "rotate_vect_by_quat [1, 0, 0, 0] [0, 0, 0, 1] = Returns [1, 0, 0]
   \<and> rotate_vect_by_quat_spec [1, 0, 0, 0] [0, 0, 0, 1] = Returns [- 1, 0, 0]
   \<and> rotate_vect_by_quat [1, 0, 0, 0] [0, 0, 0, 1]
       \<noteq> rotate_vect_by_quat_spec [1, 0, 0, 0] [0, 0, 0, 1]"
  by (simp add: rotate_vect_by_quat_def rotate_vect_by_quat_spec_def result_bind_def)

text \<open>
  C2, amended: the slice \<^verbatim>\<open>v[1:]\<close> of the product \<open>p = cq * v * q\<close>, a quaternion
  \<open>[x, y, z, w]\<close>, holds \<open>y\<close>, \<open>z\<close> and the scalar \<open>w\<close>. These three are negated, \<open>x\<close> is
  not, and the first three components are returned: \<open>[p.x, - p.y, - p.z]\<close>, for every
  4-component \<open>v\<close> and \<open>q\<close>.
\<close>

theorem rotate_vect_by_quat_negates_y_z:
  assumes "length v = 4" and "length q = 4"
  shows "rotate_vect_by_quat v q =
     result_bind (quaternion_multiply [- (q ! 0), - (q ! 1), - (q ! 2), q ! 3] v) (\<lambda>cq_v.
     result_bind (quaternion_multiply cq_v q) (\<lambda>p.
       Returns [p ! 0, - (p ! 1), - (p ! 2)]))
     \<and> (\<exists>r. rotate_vect_by_quat v q = Returns r \<and> length r = 3)"
proof -
  obtain v0 v1 v2 v3 where v: "v = [v0, v1, v2, v3]"
    using assms(1) by (auto simp: length_Suc_conv numeral_eq_Suc)
  obtain q0 q1 q2 q3 where q: "q = [q0, q1, q2, q3]"
    using assms(2) by (auto simp: length_Suc_conv numeral_eq_Suc)
  show ?thesis
    by (simp add: v q rotate_vect_by_quat_def result_bind_def)
qed

theorem rotate_vect_by_quat_negates_y_z_witness:
  "length [1, 2, 3, 0 :: real] = 4 \<and> length [0, 0, 1, 0 :: real] = 4
   \<and> rotate_vect_by_quat [1, 2, 3, 0] [0, 0, 1, 0] = Returns [- 1, 2, - 3]"
  using rotate_vect_by_quat_negates_y_z [of "[1, 2, 3, 0]" "[0, 0, 1, 0]"]
  by (simp add: result_bind_def)

subsection \<open>C3: the matrix for antiparallel inputs\<close>

text \<open>
  C3 says that every matrix returned by \<open>make_rotation\<close> for nonzero inputs is a proper
  rotation, of determinant +1, antiparallel inputs included. For \<open>a = [1, 0, 0]\<close> and
  \<open>b = [-1, 0, 0]\<close> the source returns the identity with its last diagonal entry negated:
  a reflection, of determinant -1, which moreover leaves \<open>a\<close> where it is.
\<close>

theorem make_rotation_antiparallel_reflection:
  "make_rotation [1, 0, 0] [- 1, 0, 0] = Returns [[1, 0, 0], [0, 1, 0], [0, 0, - 1]]
   \<and> det3 [[1, 0, 0], [0, 1, 0], [0, 0, - 1]] = - 1"
  by (simp add: make_rotation_def make_rotation_from_units_def normalize_np_def linalg_norm_def np_true_divide_def
      cross_def dot_def skew_symmetric_cross_def result_bind_def isclose_def eye3_def det3_def)

subsection \<open>C4: clipping the norm\<close>

text \<open>
  C4 says that \<open>clip_norm\<close> leaves a vector unchanged when its norm equals the lower bound.
  The strict test \<^verbatim>\<open>lower_bound < norm < upper_bound\<close> fails there, \<^verbatim>\<open>norm < lower_bound\<close>
  fails too, and the \<^verbatim>\<open>else\<close> branch rescales the vector to the upper bound:
  \<open>[1, 0, 0]\<close> clipped to \<open>[1, 2]\<close> becomes \<open>[2, 0, 0]\<close>.
\<close>

theorem clip_norm_lower_boundary_jumps:
  "clip_norm [1, 0, 0] 1 2 = [Fin 2, Fin 0, Fin 0]"
  by (simp add: clip_norm_def linalg_norm_def np_true_divide_def)

subsection \<open>C5: aligned inputs give the identity\<close>




subsection \<open>C6: the reflection branch is never taken\<close>



subsection \<open>C7: deskew after skew\<close>

text \<open>
  C7 says that \<open>deskew (skew_symmetric v) = v\<close> exactly, for every 3-component \<open>v\<close>. Both
  functions build their array with \<^verbatim>\<open>dtype=np.float32\<close>: for \<open>v = [0.1, 0, 0]\<close> the result
  holds the float32 nearest to one tenth, which is not one tenth.
\<close>

theorem deskew_skew_not_exact:
  "result_bind (skew_symmetric_cross [1 / 10, 0, 0]) deskew
     = Returns [13421773 / 134217728, 0, 0]
   \<and> result_bind (skew_symmetric_cross [1 / 10, 0, 0]) deskew \<noteq> Returns [1 / 10, 0, 0]"
proof -
  have "to_float32 (13421773 / 134217728) = 13421773 / 134217728"
    using to_float32_idem [of "1 / 10"] by (simp only: to_float32_tenth)
  then show ?thesis
    by (simp add: skew3 deskew_def entry_def result_bind_def to_float32_zero to_float32_tenth)
qed

text \<open>
  C7, amended: for every 3-component \<open>v\<close>, \<open>skew_symmetric_cross\<close> puts the float32
  roundings of \<open>v[0], v[1], v[2]\<close> at \<open>M[2,1], M[0,2], M[1,0]\<close> and \<open>deskew\<close> extracts those
  entries, so the composition is \<open>v\<close> rounded to float32, component by component; it is
  \<open>v\<close> itself when every component of \<open>v\<close> is a float32 value.
\<close>

theorem deskew_skew_rounds:
  assumes "length v = 3"
  shows "result_bind (skew_symmetric_cross v) deskew = Returns (map to_float32 v)
     \<and> (list_all (\<lambda>x. to_float32 x = x) v
          \<longrightarrow> result_bind (skew_symmetric_cross v) deskew = Returns v)"
proof -
  obtain x y z where v: "v = [x, y, z]" using assms length3_cases by blast
  show ?thesis
    by (simp add: v skew3 deskew_def entry_def result_bind_def to_float32_idem)
qed

theorem deskew_skew_rounds_witness:
  "length [1, 0, 1 :: real] = 3 \<and> list_all (\<lambda>x. to_float32 x = x) [1, 0, 1]
   \<and> result_bind (skew_symmetric_cross [1, 0, 1]) deskew = Returns [1, 0, 1]"
  using deskew_skew_rounds [of "[1, 0, 1]"] by (simp add: to_float32_one to_float32_zero)

subsection \<open>C8: normalising the zero vector\<close>

text \<open>
  C8 says that \<open>normalize\<close> of the zero vector fails with a visible division-by-zero
  error and does not silently return a vector of \<open>nan\<close>. The source is the bare quotient
  \<^verbatim>\<open>vector / np.linalg.norm(vector)\<close>, and numpy returns \<open>nan\<close> for \<open>0 / 0\<close>.
\<close>

theorem normalize_zero_returns_nan:
  "normalize_np [0, 0, 0] = [NaN, NaN, NaN] \<and> \<not> list_all is_finite (normalize_np [0, 0, 0])"
  by (simp add: normalize_np_def linalg_norm_def np_true_divide_def)

text \<open>
  C8, amended: \<open>normalize\<close> applied to a zero vector does not fail; it returns a vector
  of the same length whose every component is \<open>nan\<close>.
\<close>

theorem normalize_zero_vector:
  "normalize_np (replicate n 0) = replicate n NaN"
proof -
  have "(\<Sum>x\<leftarrow>replicate n (0::real). x\<^sup>2) = 0" by (induction n) simp_all
  then show ?thesis
    by (simp add: normalize_np_def linalg_norm_def np_true_divide_def)
qed

subsection \<open>C9: composing a transformation\<close>

text \<open>
  C9: for every 3x3 matrix \<open>R\<close> and 3-vector \<open>t\<close>, \<open>compose_transformation R t\<close> is the 4x4
  matrix with \<open>R\<close> in its top-left block, \<open>t\<close> in the first three entries of its last row,
  1 in the bottom-right corner and 0 in the first three entries of the last column.
\<close>

theorem compose_transformation_layout:
  assumes "length R = 3" and "list_all (\<lambda>row. length row = 3) R" and "length t = 3"
  shows "compose_transformation R t = Returns [R ! 0 @ [0], R ! 1 @ [0], R ! 2 @ [0], t @ [1]]"
proof -
  obtain r0 r1 r2 where R: "R = [r0, r1, r2]" using assms(1) length3_cases by blast
  obtain t0 t1 t2 where t: "t = [t0, t1, t2]" using assms(3) length3_cases by blast
  have l: "length r0 = 3" "length r1 = 3" "length r2 = 3" using assms(2) by (simp_all add: R)
  show ?thesis
    using l
    by (simp add: R t compose_transformation_def broadcast_mat_def broadcast_vec_def
        numeral_eq_Suc)
qed

theorem compose_transformation_layout_witness:
  "length [[1, 2, 3], [4, 5, 6], [7, 8, 9 :: real]] = 3
   \<and> list_all (\<lambda>row. length row = 3) [[1, 2, 3], [4, 5, 6], [7, 8, 9 :: real]]
   \<and> length [10, 11, 12 :: real] = 3
   \<and> compose_transformation [[1, 2, 3], [4, 5, 6], [7, 8, 9]] [10, 11, 12]
       = Returns [[1, 2, 3, 0], [4, 5, 6, 0], [7, 8, 9, 0], [10, 11, 12, 1]]"
  using compose_transformation_layout [of "[[1, 2, 3], [4, 5, 6], [7, 8, 9]]" "[10, 11, 12]"]
  by simp

subsection \<open>C10: no operation writes its arguments\<close>

text \<open>
  C10: no operation mutates its arguments. Whatever the store and the addresses passed,
  every array that exists before a call of \<open>normalize\<close>, \<open>clip_norm\<close>,
  \<open>project_pt_to_plane\<close>, \<open>skew_symmetric_cross\<close>, \<open>deskew\<close>, \<open>make_rotation\<close>,
  \<open>compose_transformation\<close>, \<open>rotate_vect_by_quat\<close> or \<open>quat_to_rotvec\<close> holds the same
  entries after it, also when the call raises; and the array that \<open>clip_norm\<close>,
  \<open>quat_to_rotvec\<close> or \<open>rotate_vect_by_quat\<close> returns is a new one, not an argument:
  \<open>clip_norm\<close> copies in its pass-through branch, the sign flip of \<open>quat_to_rotvec\<close> and
  the in-place division of \<open>unit_vector\<close> work on new arrays, and the in-place negation
  of \<open>rotate_vect_by_quat\<close> writes the product it has just computed. (The remaining
  functions of the module, \<open>quaternion_matrix\<close>, \<open>quat_to_euler\<close>, \<open>euler_to_quat\<close> and
  \<open>random_pose\<close>, hold no assignment to an array: they pass their argument, or numbers
  read from it, to \<^verbatim>\<open>tf.transformations\<close> and \<^verbatim>\<open>np.random\<close>.)
\<close>

theorem operations_leave_arguments_unchanged:
  "extends s (fst (normalize_st vector s))
   \<and> extends s (fst (clip_norm_st vector lower_bound upper_bound s))
   \<and> extends s (fst (project_pt_to_plane_st point plane_normal s))
   \<and> extends s (fst (skew_symmetric_cross_st a s))
   \<and> extends s (fst (deskew_st A s))
   \<and> extends s (fst (make_rotation_st vector_a vector_b s))
   \<and> extends s (fst (compose_transformation_st R t s))
   \<and> extends s (fst (rotate_vect_by_quat_st v q s))
   \<and> extends s (fst (quat_to_rotvec_st q s))
   \<and> (\<forall>r. snd (clip_norm_st vector lower_bound upper_bound s) = Returns r \<longrightarrow> fresh_vec s r)
   \<and> (\<forall>r. snd (quat_to_rotvec_st q s) = Returns r \<longrightarrow> fresh_vec s r)
   \<and> (\<forall>r. snd (rotate_vect_by_quat_st v q s) = Returns r \<longrightarrow> fresh_vec s r)"
proof -
  have "extends s (fst (normalize_st vector s))"
    by (rule frame_extends) (rule frame_normalize_st)
  moreover have "extends s (fst (clip_norm_st vector lower_bound upper_bound s))"
    by (rule frame_extends) (rule frame_clip_norm_st)
  moreover have "extends s (fst (project_pt_to_plane_st point plane_normal s))"
    by (rule frame_extends) (rule frame_project_pt_to_plane_st)
  moreover have "extends s (fst (skew_symmetric_cross_st a s))"
    by (rule frame_extends) (rule frame_skew_symmetric_cross_st)
  moreover have "extends s (fst (deskew_st A s))"
    by (rule frame_extends) (rule frame_deskew_st)
  moreover have "extends s (fst (make_rotation_st vector_a vector_b s))"
    by (rule frame_extends) (rule frame_make_rotation_st)
  moreover have "extends s (fst (compose_transformation_st R t s))"
    by (rule frame_extends) (rule frame_compose_transformation_st)
  moreover have "extends s (fst (rotate_vect_by_quat_st v q s))"
    by (rule frame_extends) (rule frame_rotate_vect_by_quat_st)
  moreover have "extends s (fst (quat_to_rotvec_st q s))"
    by (rule frame_extends) (rule frame_quat_to_rotvec_st)
  moreover have "fresh_vec s r"
    if "snd (clip_norm_st vector lower_bound upper_bound s) = Returns r" for r
    using frame_clip_norm_st that by (rule frame_fresh)
  moreover have "fresh_vec s r" if "snd (quat_to_rotvec_st q s) = Returns r" for r
    using frame_quat_to_rotvec_st that by (rule frame_fresh)
  moreover have "fresh_vec s r" if "snd (rotate_vect_by_quat_st v q s) = Returns r" for r
    using frame_rotate_vect_by_quat_st that by (rule frame_fresh)
  ultimately show ?thesis by blast
qed

theorem operations_leave_arguments_unchanged_witness:
  "snd (clip_norm_st 0 1 10 example_store) = Returns 4 \<and> fresh_vec example_store 4
   \<and> snd (quat_to_rotvec_st 3 example_store) = Returns 6 \<and> fresh_vec example_store 6
   \<and> snd (rotate_vect_by_quat_st 2 3 example_store) = Returns 8 \<and> fresh_vec example_store 8
   \<and> extends example_store (fst (clip_norm_st 0 1 10 example_store))
   \<and> extends example_store (fst (quat_to_rotvec_st 3 example_store))
   \<and> extends example_store (fst (rotate_vect_by_quat_st 2 3 example_store))"
proof -
  have c: "snd (clip_norm_st 0 1 10 example_store) = Returns 4"
    by (simp add: clip_norm_st_def example_store_def st_defs linalg_norm_def)
  have q: "snd (quat_to_rotvec_st 3 example_store) = Returns 6"
    by (simp add: quat_to_rotvec_st_def unit_vector_st_def example_store_def st_defs
        isclose_def np_true_divide_def linalg_norm_def)
  have r: "snd (rotate_vect_by_quat_st 2 3 example_store) = Returns 8"
    by (simp add: rotate_vect_by_quat_st_def quaternion_multiply_st_def example_store_def st_defs)
  show ?thesis
    using operations_leave_arguments_unchanged
      [of example_store 0 1 10 _ _ _ _ _ _ _ _ 2 3]
      c q r by simp
qed

end
